theory Spec2Isabelle
  imports Main "HOL-Library.Sublist"
begin

section \<open>Python values and exceptions\<close>

text \<open>
  The agents hand untyped Python values to the task manager (\<^verbatim>\<open>Dict[str, Any]\<close>).
  \<open>pyval\<close> covers the JSON-like values that can occur there; a dictionary keeps its
  insertion order, so it is an association list with string keys.  Strings are byte
  strings; floats are left out, no modelled function inspects a number.
\<close>

datatype pyval =
    PNone
  | PBool bool
  | PInt int
  | PStr string
  | PList "pyval list"
  | PDict "(string \<times> pyval) list"

text \<open>The exceptions that the modelled code raises itself, or lets a built-in raise.\<close>

datatype exn =
    ValueError string
  | TypeError
  | KeyError
  | IndexError
  | UnboundLocalError
  | JSONDecodeError

text \<open>Python's \<^verbatim>\<open>sub in s\<close> on two strings: \<open>sub\<close> occurs in \<open>s\<close> as a contiguous run.\<close>

fun contains :: "string \<Rightarrow> string \<Rightarrow> bool" where
  "contains sub [] = (sub = [])"
| "contains sub (c # cs) = (prefix sub (c # cs) \<or> contains sub cs)"

text \<open>
  \<^verbatim>\<open>k in v\<close> for a string \<open>k\<close>: key membership on a dictionary, substring test on a
  string, element membership on a list, and \<^verbatim>\<open>TypeError\<close> (argument is not iterable)
  on \<^verbatim>\<open>None\<close>, booleans and numbers.
\<close>

fun py_in :: "string \<Rightarrow> pyval \<Rightarrow> exn + bool" where
  "py_in k (PDict d) = Inr (k \<in> set (map fst d))"
| "py_in k (PStr s) = Inr (contains k s)"
| "py_in k (PList xs) = Inr (PStr k \<in> set xs)"
| "py_in k PNone = Inl TypeError"
| "py_in k (PBool b) = Inl TypeError"
| "py_in k (PInt i) = Inl TypeError"

text \<open>
  \<^verbatim>\<open>v[k]\<close> for a string \<open>k\<close>: lookup on a dictionary (\<^verbatim>\<open>KeyError\<close> when absent);
  strings and lists take integer indices only and the other values are not
  subscriptable, all \<^verbatim>\<open>TypeError\<close>.
\<close>

fun py_getitem :: "pyval \<Rightarrow> string \<Rightarrow> exn + pyval" where
  "py_getitem (PDict d) k = (case map_of d k of None \<Rightarrow> Inl KeyError | Some v \<Rightarrow> Inr v)"
| "py_getitem PNone k = Inl TypeError"
| "py_getitem (PBool b) k = Inl TypeError"
| "py_getitem (PInt i) k = Inl TypeError"
| "py_getitem (PStr s) k = Inl TypeError"
| "py_getitem (PList xs) k = Inl TypeError"

text \<open>
  \<^verbatim>\<open>json.loads(v)\<close>.  The decoder of the standard library is a parameter \<open>jl\<close>: a
  partial map from JSON texts to the values they decode to (\<open>None\<close>: the text is not
  JSON, \<^verbatim>\<open>JSONDecodeError\<close>).  An argument that is not a string is a \<^verbatim>\<open>TypeError\<close>.
\<close>

fun py_json_loads :: "(string \<rightharpoonup> pyval) \<Rightarrow> pyval \<Rightarrow> exn + pyval" where
  "py_json_loads jl (PStr s) = (case jl s of None \<Rightarrow> Inl JSONDecodeError | Some v \<Rightarrow> Inr v)"
| "py_json_loads jl PNone = Inl TypeError"
| "py_json_loads jl (PBool b) = Inl TypeError"
| "py_json_loads jl (PInt i) = Inl TypeError"
| "py_json_loads jl (PList xs) = Inl TypeError"
| "py_json_loads jl (PDict d) = Inl TypeError"

section \<open>Protocol types (common.types)\<close>

text \<open>
  Modelled from the spec: the type declarations of \<^verbatim>\<open>common.types\<close> are not among the
  sources.  The spec's data model gives a Task an id, a session id, a status and an
  optional, ordered sequence of artifacts; a TaskStatus a state and an optional
  message; a Message a role and parts; an Artifact parts, an index and an append flag;
  a part is text or structured data.  Fields a constructor call of the source does not
  pass are \<open>None\<close>.
\<close>

datatype task_state = SUBMITTED | WORKING | INPUT_REQUIRED | COMPLETED

datatype part = TextPart string | DataPart pyval

datatype role = User | Agent

record message =
  msg_role :: role
  msg_parts :: "part list"

record task_status =
  state :: task_state
  status_message :: "message option"

record artifact =
  art_parts :: "part list"
  art_index :: "int option"
  art_append :: "bool option"

record task =
  task_id :: string
  task_session :: string
  status :: task_status
  artifacts :: "artifact list option"

record push_notification_config =
  url :: string

record task_send_params =
  tsp_id :: string
  sessionId :: string
  tsp_message :: message
  acceptedOutputModes :: "string list"
  pushNotification :: "push_notification_config option"

text \<open>\<^verbatim>\<open>SendTaskRequest\<close> and \<^verbatim>\<open>SendTaskStreamingRequest\<close> have the same shape.\<close>

record request =
  req_id :: string
  params :: task_send_params

datatype rpc_error =
    ContentTypeNotSupportedError
  | InvalidParamsError string
  | InternalError string

text \<open>\<^verbatim>\<open>JSONRPCResponse(id, error)\<close>.\<close>

record jsonrpc_response =
  jr_id :: string
  jr_error :: rpc_error

text \<open>\<^verbatim>\<open>SendTaskResponse(id, result=task)\<close> or \<^verbatim>\<open>SendTaskResponse(id, error=e)\<close>.\<close>

record send_task_response =
  resp_id :: string
  resp_body :: "rpc_error + task"

record task_status_update_event =
  sue_id :: string
  sue_status :: task_status
  final :: bool

record task_artifact_update_event =
  aue_id :: string
  aue_artifact :: artifact

text \<open>What the streaming generator yields.\<close>

datatype stream_response =
    StatusUpdate string task_status_update_event
  | ArtifactUpdate string task_artifact_update_event
  | StreamError jsonrpc_response

section \<open>The task manager's state\<close>

text \<open>
  \<open>tasks\<close> and \<open>push_notification_infos\<close> are the two dictionaries of
  \<^verbatim>\<open>InMemoryTaskManager\<close>.  The two lists are traces of the calls that leave the
  manager: \<open>sent\<close> records each \<^verbatim>\<open>send_push_notification(url, data)\<close>, \<open>agent_calls\<close> each
  \<^verbatim>\<open>agent.invoke\<close> or \<^verbatim>\<open>agent.stream\<close> with its query and session id.
\<close>

record manager =
  tasks :: "string \<rightharpoonup> task"
  push_notification_infos :: "string \<rightharpoonup> push_notification_config"
  sent :: "(string \<times> task) list"
  agent_calls :: "(string \<times> string) list"

text \<open>The artifacts of a task as a list; \<^verbatim>\<open>None\<close> holds no artifact.\<close>

definition artifacts_of :: "task \<Rightarrow> artifact list" where
  "artifacts_of t = (case artifacts t of None \<Rightarrow> [] | Some xs \<Rightarrow> xs)"

text \<open>
  \<^verbatim>\<open>_update_store\<close> (task_manager.py, lines 151 to 167).  A missing task id raises
  \<^verbatim>\<open>ValueError\<close>.  Otherwise the status is assigned, and when \<open>artifacts\<close> is not
  \<^verbatim>\<open>None\<close> the task's list (created empty when it was \<^verbatim>\<open>None\<close>) is extended.  The task
  returned is the stored one.
\<close>

definition update_store ::
  "manager \<Rightarrow> string \<Rightarrow> task_status \<Rightarrow> artifact list option \<Rightarrow> exn + manager \<times> task" where
  "update_store s tid st arts =
     (case tasks s tid of
        None \<Rightarrow> Inl (ValueError (''Task '' @ tid @ '' not found''))
      | Some t \<Rightarrow>
          (let t1 = t\<lparr>status := st\<rparr>;
               t2 = (case arts of
                       None \<Rightarrow> t1
                     | Some new \<Rightarrow>
                         t1\<lparr>artifacts :=
                              Some ((case artifacts t1 of None \<Rightarrow> [] | Some old \<Rightarrow> old) @ new)\<rparr>)
           in Inr (s\<lparr>tasks := (tasks s)(tid \<mapsto> t2)\<rparr>, t2)))"

section \<open>The environment of the task manager\<close>

text \<open>
  What \<^verbatim>\<open>ActivityTrackerAgent.stream\<close> (agent.py, lines 102 to 139) yields: either
  \<^verbatim>\<open>{"is_task_complete": False, "updates": u}\<close> with a string \<open>u\<close>, or
  \<^verbatim>\<open>{"is_task_complete": True, "content": c}\<close> where \<open>c\<close> is a string or the dictionary
  \<^verbatim>\<open>function_response.model_dump()\<close>.
\<close>

datatype item_content = Text string | Mapping "(string \<times> pyval) list"

datatype agent_item = Update string | Final item_content

text \<open>
  The collaborators are parameters.  \<open>verify_push_notification_url\<close> is the challenge
  of \<^verbatim>\<open>PushNotificationSenderAuth\<close>.  \<open>agent_invoke query session\<close> is the agent's string
  result, or \<open>Inl msg\<close> when it raises an exception that prints as \<open>msg\<close>.
  \<open>agent_stream query session\<close> is the list of items the asynchronous iterator yields,
  with \<open>Some msg\<close> when it then raises instead of finishing.  \<open>json_loads\<close> is the decoder
  behind \<^verbatim>\<open>json.loads\<close>.
\<close>

record env =
  verify_push_notification_url :: "string \<Rightarrow> bool"
  agent_invoke :: "string \<Rightarrow> string \<Rightarrow> string + string"
  agent_stream :: "string \<Rightarrow> string \<Rightarrow> agent_item list \<times> string option"
  json_loads :: "string \<rightharpoonup> pyval"

text \<open>\<^verbatim>\<open>ActivityTrackerAgent.SUPPORTED_CONTENT_TYPES\<close> (agent.py, line 66).\<close>

definition SUPPORTED_CONTENT_TYPES :: "string list" where
  "SUPPORTED_CONTENT_TYPES = [''text'', ''text/plain'']"

text \<open>
  Modelled from the spec: \<^verbatim>\<open>common.server.utils.are_modalities_compatible\<close> is not among
  the sources.  The spec: the accepted output modes must intersect the agent's
  supported content types.
\<close>

definition are_modalities_compatible :: "string list \<Rightarrow> string list \<Rightarrow> bool" where
  "are_modalities_compatible client_modes server_modes =
     list_ex (\<lambda>m. m \<in> set server_modes) client_modes"

text \<open>
  Modelled from the spec: \<^verbatim>\<open>common.server.utils.new_incompatible_types_error\<close> is not
  among the sources.  The spec: an "incompatible types" protocol error, here the
  response that carries it for the request id.
\<close>

definition new_incompatible_types_error :: "string \<Rightarrow> jsonrpc_response" where
  "new_incompatible_types_error rid = \<lparr>jr_id = rid, jr_error = ContentTypeNotSupportedError\<rparr>"

text \<open>
  Modelled from the spec: \<^verbatim>\<open>InMemoryTaskManager.upsert_task\<close> is not among the sources.
  The spec: create the task if absent, else leave the existing fields untouched; a new
  task is in the initial state \<^verbatim>\<open>SUBMITTED\<close>.
\<close>

definition upsert_task :: "manager \<Rightarrow> task_send_params \<Rightarrow> manager" where
  "upsert_task s p =
     (case tasks s (tsp_id p) of
        Some t \<Rightarrow> s
      | None \<Rightarrow>
          s\<lparr>tasks := (tasks s)(tsp_id p \<mapsto>
               \<lparr>task_id = tsp_id p, task_session = sessionId p,
                status = \<lparr>state = SUBMITTED, status_message = None\<rparr>,
                artifacts = None\<rparr>)\<rparr>)"

text \<open>
  Modelled from the spec: the push-notification registry of \<^verbatim>\<open>InMemoryTaskManager\<close>
  (\<^verbatim>\<open>set_push_notification_info\<close> of the base class, \<^verbatim>\<open>has_push_notification_info\<close>,
  \<^verbatim>\<open>get_push_notification_info\<close>) is not among the sources.  The spec: a config is
  associated 1:1 with a task id, a later one overwrites it, and a registered config is
  queryable.
\<close>

definition base_set_push_notification_info ::
  "manager \<Rightarrow> string \<Rightarrow> push_notification_config \<Rightarrow> manager" where
  "base_set_push_notification_info s tid cfg =
     s\<lparr>push_notification_infos := (push_notification_infos s)(tid \<mapsto> cfg)\<rparr>"

definition has_push_notification_info :: "manager \<Rightarrow> string \<Rightarrow> bool" where
  "has_push_notification_info s tid = (push_notification_infos s tid \<noteq> None)"

definition get_push_notification_info ::
  "manager \<Rightarrow> string \<Rightarrow> push_notification_config option" where
  "get_push_notification_info s tid = push_notification_infos s tid"

section \<open>AgentTaskManager (google_adk/task_manager.py)\<close>

text \<open>
  \<^verbatim>\<open>set_push_notification_info\<close> (lines 204 to 211): the URL is verified first; only a
  verified config reaches the base class.
\<close>

definition set_push_notification_info ::
  "env \<Rightarrow> manager \<Rightarrow> string \<Rightarrow> push_notification_config \<Rightarrow> manager \<times> bool" where
  "set_push_notification_info e s tid cfg =
     (if \<not> verify_push_notification_url e (url cfg) then (s, False)
      else (base_set_push_notification_info s tid cfg, True))"

text \<open>
  \<^verbatim>\<open>send_task_notification\<close> (lines 192 to 202): nothing without a registered config,
  else the task as it is now goes to the registered URL.
\<close>

definition send_task_notification :: "manager \<Rightarrow> task \<Rightarrow> manager" where
  "send_task_notification s t =
     (if \<not> has_push_notification_info s (task_id t) then s
      else (case get_push_notification_info s (task_id t) of
              None \<Rightarrow> s
            | Some push_info \<Rightarrow> s\<lparr>sent := sent s @ [(url push_info, t)]\<rparr>))"

text \<open>
  \<^verbatim>\<open>_get_user_query\<close> (lines 186 to 190): \<^verbatim>\<open>parts[0]\<close> raises \<^verbatim>\<open>IndexError\<close> on an empty
  list; a first part that is not a \<^verbatim>\<open>TextPart\<close> raises \<^verbatim>\<open>ValueError\<close>.
\<close>

definition get_user_query :: "task_send_params \<Rightarrow> exn + string" where
  "get_user_query p =
     (case msg_parts (tsp_message p) of
        [] \<Rightarrow> Inl IndexError
      | TextPart t # rest \<Rightarrow> Inr t
      | DataPart d # rest \<Rightarrow> Inl (ValueError ''Only text parts are supported''))"

text \<open>
  \<^verbatim>\<open>_validate_request\<close> (lines 103 to 121).  A config object is always truthy, an empty
  URL string is falsy.
\<close>

definition validate_request :: "request \<Rightarrow> jsonrpc_response option" where
  "validate_request req =
     (let p = params req in
      if \<not> are_modalities_compatible (acceptedOutputModes p) SUPPORTED_CONTENT_TYPES
      then Some (new_incompatible_types_error (req_id req))
      else if (case pushNotification p of None \<Rightarrow> False | Some cfg \<Rightarrow> url cfg = [])
      then Some \<lparr>jr_id = req_id req,
                 jr_error = InvalidParamsError ''Push notification URL is missing''\<rparr>
      else None)"

text \<open>
  \<^verbatim>\<open>_invoke\<close> (lines 168 to 185).  The query is extracted outside the \<^verbatim>\<open>try\<close>; an
  exception of the agent is raised again as \<^verbatim>\<open>ValueError\<close>; the result string becomes one
  text part, used for the status message and for the one new artifact.
\<close>

definition invoke :: "env \<Rightarrow> manager \<Rightarrow> request \<Rightarrow> manager \<times> (exn + send_task_response)" where
  "invoke e s req =
     (let p = params req in
      case get_user_query p of
        Inl err \<Rightarrow> (s, Inl err)
      | Inr query \<Rightarrow>
          (let s1 = s\<lparr>agent_calls := agent_calls s @ [(query, sessionId p)]\<rparr> in
           case agent_invoke e query (sessionId p) of
             Inl msg \<Rightarrow> (s1, Inl (ValueError (''Error invoking agent: '' @ msg)))
           | Inr result \<Rightarrow>
               (let parts = [TextPart result];
                    task_state = (if contains ''MISSING_INFO:'' result
                                  then INPUT_REQUIRED else COMPLETED)
                in case update_store s1 (tsp_id p)
                          \<lparr>state = task_state,
                           status_message = Some \<lparr>msg_role = Agent, msg_parts = parts\<rparr>\<rparr>
                          (Some [\<lparr>art_parts = parts, art_index = None, art_append = None\<rparr>]) of
                     Inl err \<Rightarrow> (s1, Inl err)
                   | Inr (s2, t) \<Rightarrow> (s2, Inr \<lparr>resp_id = req_id req, resp_body = Inr t\<rparr>))))"

text \<open>
  \<^verbatim>\<open>on_send_task\<close> (lines 122 to 136): validation, then the push-notification config,
  then the upsert, the \<^verbatim>\<open>WORKING\<close> status with an empty artifact list, its notification,
  and \<^verbatim>\<open>_invoke\<close>.
\<close>

definition on_send_task :: "env \<Rightarrow> manager \<Rightarrow> request \<Rightarrow> manager \<times> (exn + send_task_response)" where
  "on_send_task e s req =
     (case validate_request req of
        Some validation_error \<Rightarrow>
          (s, Inr \<lparr>resp_id = req_id req, resp_body = Inl (jr_error validation_error)\<rparr>)
      | None \<Rightarrow>
          (let (s1, ok) = (case pushNotification (params req) of
                             None \<Rightarrow> (s, True)
                           | Some cfg \<Rightarrow> set_push_notification_info e s (tsp_id (params req)) cfg)
           in if \<not> ok
              then (s1, Inr \<lparr>resp_id = req_id req,
                             resp_body = Inl (InvalidParamsError ''Push notification URL is invalid'')\<rparr>)
              else (let s2 = upsert_task s1 (params req) in
                    case update_store s2 (tsp_id (params req))
                           \<lparr>state = WORKING, status_message = None\<rparr> (Some []) of
                      Inl err \<Rightarrow> (s2, Inl err)
                    | Inr (s3, t) \<Rightarrow> invoke e (send_task_notification s3 t) req)))"

text \<open>
  \<^verbatim>\<open>on_send_task_subscribe\<close> (lines 137 to 150): validation, then the upsert, then the
  push-notification config.  \<open>Inr req\<close> stands for the generator
  \<^verbatim>\<open>self._stream_generator(request)\<close>, which has not run yet.
\<close>

definition on_send_task_subscribe ::
  "env \<Rightarrow> manager \<Rightarrow> request \<Rightarrow> manager \<times> (jsonrpc_response + request)" where
  "on_send_task_subscribe e s req =
     (case validate_request req of
        Some validation_error \<Rightarrow> (s, Inl validation_error)
      | None \<Rightarrow>
          (let s1 = upsert_task s (params req);
               (s2, ok) = (case pushNotification (params req) of
                             None \<Rightarrow> (s1, True)
                           | Some cfg \<Rightarrow> set_push_notification_info e s1 (tsp_id (params req)) cfg)
           in if \<not> ok
              then (s2, Inl \<lparr>jr_id = req_id req,
                             jr_error = InvalidParamsError ''Push notification URL is invalid''\<rparr>)
              else (s2, Inr req)))"

subsection \<open>The streaming generator\<close>

text \<open>The four local variables the loop body binds.\<close>

record loop_vars =
  lv_is_task_complete :: bool
  lv_artifacts :: "artifact list option"
  lv_task_state :: task_state
  lv_parts :: "part list"

text \<open>
  The loop body (lines 44 to 62) for one item.  On a dictionary the test
  \<^verbatim>\<open>"response" in content and "result" in content["response"]\<close> is evaluated left to
  right and may raise, as may the two subscripts and \<^verbatim>\<open>json.loads\<close> after it.
\<close>

definition has_response_result :: "(string \<times> pyval) list \<Rightarrow> exn + bool" where
  "has_response_result d =
     (case py_in ''response'' (PDict d) of
        Inl err \<Rightarrow> Inl err
      | Inr False \<Rightarrow> Inr False
      | Inr True \<Rightarrow>
          (case py_getitem (PDict d) ''response'' of
             Inl err \<Rightarrow> Inl err
           | Inr r \<Rightarrow> py_in ''result'' r))"

definition response_result_data :: "(string \<rightharpoonup> pyval) \<Rightarrow> (string \<times> pyval) list \<Rightarrow> exn + pyval" where
  "response_result_data jl d =
     (case py_getitem (PDict d) ''response'' of
        Inl err \<Rightarrow> Inl err
      | Inr r \<Rightarrow>
          (case py_getitem r ''result'' of
             Inl err \<Rightarrow> Inl err
           | Inr v \<Rightarrow> py_json_loads jl v))"

definition final_vars :: "task_state \<Rightarrow> part list \<Rightarrow> loop_vars" where
  "final_vars st ps =
     \<lparr>lv_is_task_complete = True,
      lv_artifacts = Some [\<lparr>art_parts = ps, art_index = Some 0, art_append = Some False\<rparr>],
      lv_task_state = st,
      lv_parts = ps\<rparr>"

definition stream_item :: "(string \<rightharpoonup> pyval) \<Rightarrow> agent_item \<Rightarrow> exn + loop_vars" where
  "stream_item jl item =
     (case item of
        Update u \<Rightarrow>
          Inr \<lparr>lv_is_task_complete = False, lv_artifacts = None,
               lv_task_state = WORKING, lv_parts = [TextPart u]\<rparr>
      | Final (Mapping d) \<Rightarrow>
          (case has_response_result d of
             Inl err \<Rightarrow> Inl err
           | Inr True \<Rightarrow>
               (case response_result_data jl d of
                  Inl err \<Rightarrow> Inl err
                | Inr data \<Rightarrow> Inr (final_vars INPUT_REQUIRED [DataPart data]))
           | Inr False \<Rightarrow> Inr (final_vars COMPLETED [DataPart (PDict d)]))
      | Final (Text t) \<Rightarrow> Inr (final_vars COMPLETED [TextPart t]))"

text \<open>
  The \<^verbatim>\<open>async for\<close> (line 43): each item rebinds the variables; \<open>None\<close> means the loop
  has bound nothing yet.  An exception of the body leaves the loop.
\<close>

fun stream_loop ::
  "(string \<rightharpoonup> pyval) \<Rightarrow> agent_item list \<Rightarrow> loop_vars option \<Rightarrow> exn + loop_vars option" where
  "stream_loop jl [] vars = Inr vars"
| "stream_loop jl (item # items) vars =
     (case stream_item jl item of
        Inl err \<Rightarrow> Inl err
      | Inr v \<Rightarrow> stream_loop jl items (Some v))"

text \<open>The response of the \<^verbatim>\<open>except\<close> branch (lines 95 to 102).\<close>

definition streaming_error :: "string \<Rightarrow> stream_response" where
  "streaming_error rid =
     StreamError \<lparr>jr_id = rid,
                  jr_error = InternalError ''An error occurred while streaming the response''\<rparr>"

text \<open>
  The code after the loop (lines 63 to 94), run on the variables the last item bound.
  It reads \<^verbatim>\<open>parts\<close> first, which is unbound when the loop ran for no item:
  \<^verbatim>\<open>UnboundLocalError\<close>.  The result is the new state and the responses yielded.
\<close>

definition after_loop ::
  "manager \<Rightarrow> request \<Rightarrow> loop_vars option \<Rightarrow> exn + manager \<times> stream_response list" where
  "after_loop s req vars =
     (case vars of
        None \<Rightarrow> Inl UnboundLocalError
      | Some v \<Rightarrow>
          (let p = params req;
               task_status = \<lparr>state = lv_task_state v,
                              status_message = Some \<lparr>msg_role = Agent, msg_parts = lv_parts v\<rparr>\<rparr>
           in case update_store s (tsp_id p) task_status (lv_artifacts v) of
                Inl err \<Rightarrow> Inl err
              | Inr (s1, latest_task) \<Rightarrow>
                  Inr (send_task_notification s1 latest_task,
                       [StatusUpdate (req_id req)
                          \<lparr>sue_id = tsp_id p, sue_status = task_status, final = False\<rparr>]
                       @ map (\<lambda>a. ArtifactUpdate (req_id req) \<lparr>aue_id = tsp_id p, aue_artifact = a\<rparr>)
                           (case lv_artifacts v of None \<Rightarrow> [] | Some arts \<Rightarrow> arts)
                       @ (if lv_is_task_complete v
                          then [StatusUpdate (req_id req)
                                  \<lparr>sue_id = tsp_id p,
                                   sue_status = \<lparr>state = lv_task_state v, status_message = None\<rparr>,
                                   final = True\<rparr>]
                          else []))))"

text \<open>
  \<^verbatim>\<open>_stream_generator\<close> (lines 37 to 102), drained by its consumer: the new state, the
  responses yielded in order, and the exception that leaves the generator, if any.
  The query is extracted before the \<^verbatim>\<open>try\<close>; every exception inside it ends the stream
  with the one error response.  Nothing is yielded before the store update and the
  notification, so an exception never follows a yielded response.
\<close>

definition stream_generator ::
  "env \<Rightarrow> manager \<Rightarrow> request \<Rightarrow> manager \<times> stream_response list \<times> exn option" where
  "stream_generator e s req =
     (let p = params req in
      case get_user_query p of
        Inl err \<Rightarrow> (s, [], Some err)
      | Inr query \<Rightarrow>
          (let s1 = s\<lparr>agent_calls := agent_calls s @ [(query, sessionId p)]\<rparr>;
               (items, raised) = agent_stream e query (sessionId p)
           in case stream_loop (json_loads e) items None of
                Inl err \<Rightarrow> (s1, [streaming_error (req_id req)], None)
              | Inr vars \<Rightarrow>
                  (case raised of
                     Some msg \<Rightarrow> (s1, [streaming_error (req_id req)], None)
                   | None \<Rightarrow>
                       (case after_loop s1 req vars of
                          Inl err \<Rightarrow> (s1, [streaming_error (req_id req)], None)
                        | Inr (s2, out) \<Rightarrow> (s2, out, None)))))"

section \<open>CalendarAgent (langgraph/agent.py)\<close>

text \<open>
  \<^verbatim>\<open>str.lower()\<close> on the ASCII letters; every other byte is kept.
\<close>

definition lower_char :: "char \<Rightarrow> char" where
  "lower_char c =
     (case map_of (zip ''ABCDEFGHIJKLMNOPQRSTUVWXYZ'' ''abcdefghijklmnopqrstuvwxyz'') c of
        None \<Rightarrow> c
      | Some l \<Rightarrow> l)"

definition py_lower :: "string \<Rightarrow> string" where
  "py_lower s = map lower_char s"

text \<open>The phrases of line 162.\<close>

definition day_triggers :: "string list" where
  "day_triggers =
     [''plan my day'', ''organize my day'', ''what's my schedule'', ''day at a glance'']"

record datetime =
  dt_year :: int
  dt_month :: int
  dt_day :: int
  dt_hour :: int
  dt_minute :: int
  dt_second :: int
  dt_microsecond :: int

text \<open>The dictionary \<^verbatim>\<open>invoke\<close> returns.\<close>

record calendar_response =
  is_task_complete :: bool
  require_user_input :: bool
  content :: string

text \<open>
  What a call of \<^verbatim>\<open>_fetch_events\<close> (lines 54 to 75) comes to: the list of events, the
  dictionary \<^verbatim>\<open>{"error": msg}\<close> it builds from an \<^verbatim>\<open>HttpError\<close>, or any other
  exception, which it lets through.
\<close>

datatype fetch_outcome =
    FetchEvents "pyval list"
  | FetchErrorDict string
  | FetchRaised string

text \<open>The first worksheet of \<^verbatim>\<open>calendar_activities.xlsx\<close>: its rows of cells.\<close>

type_synonym worksheet = "pyval list list"

text \<open>
  The parts of the calendar agent that lie outside it or that no property here looks
  into are parameters: the clock, the Google Calendar query behind \<^verbatim>\<open>_fetch_events\<close>,
  the row built from one event (lines 116 to 126), the day plan for a non-empty event
  list (lines 133 to 157, over \<^verbatim>\<open>dateparser\<close>), and what \<^verbatim>\<open>invoke\<close> does for the other
  queries (lines 180 to 248).  \<open>Inl msg\<close> is an exception that prints as \<open>msg\<close>.
  The two \<^verbatim>\<open>openpyxl\<close> calls on the file can fail as well: \<open>load_workbook rows\<close> is
  \<open>Some msg\<close> when \<^verbatim>\<open>load_workbook(filename)\<close> raises on a file that holds \<open>rows\<close>, and
  \<open>save_workbook rows\<close> is \<open>Some msg\<close> when \<^verbatim>\<open>wb.save(filename)\<close> raises on writing \<open>rows\<close>;
  \<open>None\<close> is the call that succeeds.
\<close>

record calendar_env =
  now :: datetime
  fetch_events :: "datetime option \<Rightarrow> datetime option \<Rightarrow> int \<Rightarrow> fetch_outcome"
  event_row :: "pyval \<Rightarrow> string + pyval list"
  plan_events :: "pyval list \<Rightarrow> string + string"
  invoke_other :: "worksheet option \<Rightarrow> string \<Rightarrow> string \<Rightarrow> worksheet option \<times> calendar_response"
  load_workbook :: "worksheet \<Rightarrow> string option"
  save_workbook :: "worksheet \<Rightarrow> string option"

fun event_rows :: "(pyval \<Rightarrow> string + pyval list) \<Rightarrow> pyval list \<Rightarrow> string + worksheet" where
  "event_rows f [] = Inr []"
| "event_rows f (ev # evs) =
     (case f ev of
        Inl msg \<Rightarrow> Inl msg
      | Inr row \<Rightarrow>
          (case event_rows f evs of
             Inl msg \<Rightarrow> Inl msg
           | Inr rows \<Rightarrow> Inr (row # rows)))"

text \<open>
  The worksheet \<^verbatim>\<open>_append_events_to_excel\<close> works on (lines 106 to 113).  The file is
  \<open>None\<close> when it does not exist; then a workbook with the header row is created.  An
  existing file is loaded, which can raise.
\<close>

definition open_workbook :: "calendar_env \<Rightarrow> worksheet option \<Rightarrow> string + worksheet" where
  "open_workbook ce file =
     (case file of
        Some rows \<Rightarrow>
          (case load_workbook ce rows of
             Some msg \<Rightarrow> Inl msg
           | None \<Rightarrow> Inr rows)
      | None \<Rightarrow> Inr [map PStr [''Date'', ''Summary'', ''Attachments'', ''Conference Links'']])"

text \<open>
  \<^verbatim>\<open>_append_events_to_excel\<close> (lines 105 to 128).  The workbook is opened, one row is
  appended for each event, and the workbook is saved, also when there is no event.
  The save comes after the loop, so an exception in the loop leaves the file as it
  was; so does, here, a save that raises.
\<close>

definition append_events_to_excel ::
  "calendar_env \<Rightarrow> worksheet option \<Rightarrow> pyval list \<Rightarrow> string + worksheet option" where
  "append_events_to_excel ce file events =
     (case open_workbook ce file of
        Inl msg \<Rightarrow> Inl msg
      | Inr ws \<Rightarrow>
          (case event_rows (event_row ce) events of
             Inl msg \<Rightarrow> Inl msg
           | Inr rows \<Rightarrow>
               (case save_workbook ce (ws @ rows) of
                  Some msg \<Rightarrow> Inl msg
                | None \<Rightarrow> Inr (Some (ws @ rows)))))"

text \<open>\<^verbatim>\<open>_plan_my_day\<close> (lines 130 to 157).\<close>

definition plan_my_day :: "calendar_env \<Rightarrow> pyval list \<Rightarrow> string + string" where
  "plan_my_day ce events =
     (if events = []
      then Inr ''You have no events scheduled for today. Your day is wide open!''
      else plan_events ce events)"

text \<open>The dictionary of the \<^verbatim>\<open>except\<close> branch of \<^verbatim>\<open>invoke\<close> (lines 243 to 248).\<close>

definition error_response :: "string \<Rightarrow> calendar_response" where
  "error_response msg =
     \<lparr>is_task_complete = False, require_user_input = True,
      content = ''An error occurred: '' @ msg\<rparr>"

text \<open>
  \<^verbatim>\<open>CalendarAgent.invoke\<close> (lines 159 to 248), together with the worksheet file it
  writes.  The whole body is inside \<^verbatim>\<open>try\<close>.
\<close>

definition calendar_invoke ::
  "calendar_env \<Rightarrow> worksheet option \<Rightarrow> string \<Rightarrow> string \<Rightarrow> worksheet option \<times> calendar_response" where
  "calendar_invoke ce file query session =
     (if list_ex (\<lambda>word. contains word (py_lower query)) day_triggers
      then
        (let today = now ce;
             date = today\<lparr>dt_hour := 0, dt_minute := 0, dt_second := 0, dt_microsecond := 0\<rparr>;
             end_date = today\<lparr>dt_hour := 23, dt_minute := 59, dt_second := 59,
                               dt_microsecond := 999999\<rparr>
         in case fetch_events ce (Some date) (Some end_date) 50 of
              FetchRaised msg \<Rightarrow> (file, error_response msg)
            | FetchErrorDict msg \<Rightarrow>
                (file, \<lparr>is_task_complete = False, require_user_input = True, content = msg\<rparr>)
            | FetchEvents events \<Rightarrow>
                (case append_events_to_excel ce file events of
                   Inl msg \<Rightarrow> (file, error_response msg)
                 | Inr file1 \<Rightarrow>
                     (case plan_my_day ce events of
                        Inl msg \<Rightarrow> (file1, error_response msg)
                      | Inr plan \<Rightarrow>
                          (file1, \<lparr>is_task_complete = True, require_user_input = False,
                                   content = plan\<rparr>))))
      else invoke_other ce file query session)"

text \<open>The artifacts stored under a task id; none when the id is unknown.\<close>

definition previous_artifacts :: "manager \<Rightarrow> string \<Rightarrow> artifact list" where
  "previous_artifacts s tid = (case tasks s tid of None \<Rightarrow> [] | Some t \<Rightarrow> artifacts_of t)"

section \<open>Example inputs\<close>

text \<open>Concrete collaborators, requests and states, on which the properties are run.\<close>

definition example_env :: "bool \<Rightarrow> string + string \<Rightarrow> agent_item list \<Rightarrow> env" where
  "example_env verified answer items =
     \<lparr>verify_push_notification_url = (\<lambda>u. verified),
      agent_invoke = (\<lambda>query session. answer),
      agent_stream = (\<lambda>query session. (items, None)),
      json_loads = [''[1, 2]'' \<mapsto> PList [PInt 1, PInt 2]]\<rparr>"

definition example_request ::
  "part list \<Rightarrow> string list \<Rightarrow> push_notification_config option \<Rightarrow> request" where
  "example_request ps modes push =
     \<lparr>req_id = ''r1'',
      params = \<lparr>tsp_id = ''t1'', sessionId = ''s1'',
                tsp_message = \<lparr>msg_role = User, msg_parts = ps\<rparr>,
                acceptedOutputModes = modes,
                pushNotification = push\<rparr>\<rparr>"

definition old_artifact :: artifact where
  "old_artifact = \<lparr>art_parts = [TextPart ''old''], art_index = None, art_append = None\<rparr>"

definition example_task :: task where
  "example_task =
     \<lparr>task_id = ''t1'', task_session = ''s1'',
      status = \<lparr>state = INPUT_REQUIRED,
                status_message = Some \<lparr>msg_role = Agent, msg_parts = [TextPart ''old'']\<rparr>\<rparr>,
      artifacts = Some [old_artifact]\<rparr>"

definition empty_manager :: manager where
  "empty_manager =
     \<lparr>tasks = Map.empty, push_notification_infos = Map.empty, sent = [], agent_calls = []\<rparr>"

definition example_manager :: manager where
  "example_manager =
     \<lparr>tasks = [''t1'' \<mapsto> example_task],
      push_notification_infos = [''t1'' \<mapsto> \<lparr>url = ''http://good''\<rparr>],
      sent = [], agent_calls = []\<rparr>"

definition answer_status :: "task_state \<Rightarrow> string \<Rightarrow> task_status" where
  "answer_status st result =
     \<lparr>state = st, status_message = Some \<lparr>msg_role = Agent, msg_parts = [TextPart result]\<rparr>\<rparr>"

definition answer_artifact :: "string \<Rightarrow> artifact" where
  "answer_artifact result =
     \<lparr>art_parts = [TextPart result], art_index = None, art_append = None\<rparr>"

definition example_calendar_env :: "fetch_outcome \<Rightarrow> string option \<Rightarrow> calendar_env" where
  "example_calendar_env fetched save_error =
     \<lparr>now = \<lparr>dt_year = 2025, dt_month = 5, dt_day = 17, dt_hour = 9, dt_minute = 30,
              dt_second = 12, dt_microsecond = 0\<rparr>,
      fetch_events = (\<lambda>date end_date maxResults. fetched),
      event_row = (\<lambda>ev. Inr [ev]),
      plan_events = (\<lambda>events. Inr ''busy''),
      invoke_other = (\<lambda>file query session.
        (file, \<lparr>is_task_complete = True, require_user_input = False,
                content = ''No upcoming events found.''\<rparr>)),
      load_workbook = (\<lambda>rows. None),
      save_workbook = (\<lambda>rows. save_error)\<rparr>"

definition example_worksheet :: worksheet where
  "example_worksheet =
     [[PStr ''Date'', PStr ''Summary'', PStr ''Attachments'', PStr ''Conference Links''],
      [PStr ''2025-05-16'', PStr ''Review'', PStr [], PStr []]]"

section \<open>Properties\<close>

lemma update_store_found:
  assumes "tasks s tid = Some t"
  shows "update_store s tid st arts =
           Inr (s\<lparr>tasks := (tasks s)(tid \<mapsto>
                  t\<lparr>status := st,
                    artifacts := (case arts of None \<Rightarrow> artifacts t
                                  | Some new \<Rightarrow> Some (artifacts_of t @ new))\<rparr>)\<rparr>,
                t\<lparr>status := st,
                  artifacts := (case arts of None \<Rightarrow> artifacts t
                                | Some new \<Rightarrow> Some (artifacts_of t @ new))\<rparr>)"
  using assms by (cases arts) (simp_all add: update_store_def artifacts_of_def Let_def)

text \<open>
  C8.  An update of an existing task succeeds, stores and returns the same task, whose
  status is exactly the status passed in (no field of the old status survives), whose
  id and session are untouched, and whose artifacts are the old artifacts followed by
  the new ones: the old list is a prefix of the new one and nothing is removed.
\<close>

theorem update_store_replaces_status_appends_artifacts:
  assumes "tasks s tid = Some t"
  shows "\<exists>s' t'. update_store s tid st arts = Inr (s', t')
           \<and> tasks s' tid = Some t'
           \<and> status t' = st
           \<and> artifacts_of t' = artifacts_of t @ (case arts of None \<Rightarrow> [] | Some new \<Rightarrow> new)
           \<and> prefix (artifacts_of t) (artifacts_of t')
           \<and> task_id t' = task_id t \<and> task_session t' = task_session t"
  using assms by (cases arts) (simp_all add: update_store_found artifacts_of_def)

theorem update_store_replaces_status_appends_artifacts_witness:
  "tasks example_manager ''t1'' = Some example_task
   \<and> (\<exists>s' t'. update_store example_manager ''t1'' \<lparr>state = COMPLETED, status_message = None\<rparr>
                  (Some [answer_artifact ''new'']) = Inr (s', t')
           \<and> tasks s' ''t1'' = Some t'
           \<and> status t' = \<lparr>state = COMPLETED, status_message = None\<rparr>
           \<and> artifacts_of t' = [old_artifact, answer_artifact ''new'']
           \<and> prefix [old_artifact] (artifacts_of t')
           \<and> task_id t' = ''t1'' \<and> task_session t' = ''s1'')"
proof -
  have found: "tasks example_manager ''t1'' = Some example_task"
    by (simp add: example_manager_def)
  from update_store_replaces_status_appends_artifacts
         [OF found, of "\<lparr>state = COMPLETED, status_message = None\<rparr>" "Some [answer_artifact ''new'']"]
  show ?thesis using found by (simp add: artifacts_of_def example_task_def)
qed

lemma tasks_send_task_notification [simp]: "tasks (send_task_notification s t) = tasks s"
  by (simp add: send_task_notification_def split: option.splits)

lemma agent_calls_send_task_notification [simp]:
  "agent_calls (send_task_notification s t) = agent_calls s"
  by (simp add: send_task_notification_def split: option.splits)

lemma tasks_set_push_notification_info [simp]:
  "tasks (fst (set_push_notification_info e s tid cfg)) = tasks s"
  by (simp add: set_push_notification_info_def base_set_push_notification_info_def)

lemma agent_calls_set_push_notification_info [simp]:
  "agent_calls (fst (set_push_notification_info e s tid cfg)) = agent_calls s"
  by (simp add: set_push_notification_info_def base_set_push_notification_info_def)

lemma upsert_task_present:
  "\<exists>t. tasks (upsert_task s p) (tsp_id p) = Some t \<and> artifacts_of t = previous_artifacts s (tsp_id p)"
  by (simp add: upsert_task_def previous_artifacts_def artifacts_of_def split: option.splits)

lemma agent_calls_upsert_task [simp]: "agent_calls (upsert_task s p) = agent_calls s"
  by (simp add: upsert_task_def split: option.splits)

lemma update_store_Inr:
  assumes "update_store s tid st arts = Inr (s', t')"
  shows "\<exists>t. tasks s tid = Some t
           \<and> t' = t\<lparr>status := st,
                    artifacts := (case arts of None \<Rightarrow> artifacts t
                                  | Some new \<Rightarrow> Some (artifacts_of t @ new))\<rparr>
           \<and> s' = s\<lparr>tasks := (tasks s)(tid \<mapsto> t')\<rparr>"
  using assms
  by (cases "tasks s tid"; cases arts) (auto simp: update_store_def artifacts_of_def Let_def)

lemma invoke_Inr:
  assumes "invoke e s req = (s', Inr r)"
  shows "\<exists>query result t0 t.
           get_user_query (params req) = Inr query
         \<and> agent_invoke e query (sessionId (params req)) = Inr result
         \<and> tasks s (tsp_id (params req)) = Some t0
         \<and> r = \<lparr>resp_id = req_id req, resp_body = Inr t\<rparr>
         \<and> tasks s' (tsp_id (params req)) = Some t
         \<and> status t = \<lparr>state = (if contains ''MISSING_INFO:'' result then INPUT_REQUIRED else COMPLETED),
                        status_message = Some \<lparr>msg_role = Agent, msg_parts = [TextPart result]\<rparr>\<rparr>
         \<and> artifacts_of t = artifacts_of t0 @ [\<lparr>art_parts = [TextPart result], art_index = None, art_append = None\<rparr>]"
  using assms
  apply (simp add: invoke_def Let_def split: sum.splits prod.splits)
  apply (auto dest!: update_store_Inr simp: artifacts_of_def)
  done

lemma on_send_task_Inr:
  assumes "on_send_task e s req = (s', Inr r)" and "resp_body r = Inr t"
  shows "\<exists>s1 t1. invoke e s1 req = (s', Inr r)
            \<and> tasks s1 (tsp_id (params req)) = Some t1
            \<and> artifacts_of t1 = previous_artifacts s (tsp_id (params req))"
proof (cases "validate_request req")
  case (Some err)
  with assms show ?thesis by (auto simp: on_send_task_def)
next
  case None
  obtain s1 ok where so:
      "(case pushNotification (params req) of
          None \<Rightarrow> (s, True)
        | Some cfg \<Rightarrow> set_push_notification_info e s (tsp_id (params req)) cfg) = (s1, ok)"
    by fastforce
  have tasks_s1: "tasks s1 = tasks s"
  proof (cases "pushNotification (params req)")
    case None
    with so show ?thesis by simp
  next
    case (Some cfg)
    with so have "s1 = fst (set_push_notification_info e s (tsp_id (params req)) cfg)" by simp
    then show ?thesis by simp
  qed
  obtain t2 where t2: "tasks (upsert_task s1 (params req)) (tsp_id (params req)) = Some t2"
      "artifacts_of t2 = previous_artifacts s1 (tsp_id (params req))"
    using upsert_task_present by blast
  have prev: "previous_artifacts s1 (tsp_id (params req)) = previous_artifacts s (tsp_id (params req))"
    by (simp add: previous_artifacts_def tasks_s1)
  let ?st = "\<lparr>state = WORKING, status_message = None\<rparr>"
  let ?t3 = "t2\<lparr>status := ?st, artifacts := Some (artifacts_of t2 @ [])\<rparr>"
  let ?s3 = "(upsert_task s1 (params req))\<lparr>tasks := (tasks (upsert_task s1 (params req)))(tsp_id (params req) \<mapsto> ?t3)\<rparr>"
  have upd: "update_store (upsert_task s1 (params req)) (tsp_id (params req)) ?st (Some []) = Inr (?s3, ?t3)"
    using update_store_found [OF t2(1), of ?st "Some []"] by simp
  have step: "on_send_task e s req =
     (if \<not> ok then (s1, Inr \<lparr>resp_id = req_id req,
                             resp_body = Inl (InvalidParamsError ''Push notification URL is invalid'')\<rparr>)
      else invoke e (send_task_notification ?s3 ?t3) req)"
    using None upd by (simp add: on_send_task_def so Let_def)
  show ?thesis
  proof (cases ok)
    case False
    with step assms show ?thesis by auto
  next
    case True
    with step assms have "invoke e (send_task_notification ?s3 ?t3) req = (s', Inr r)" by simp
    moreover have "tasks (send_task_notification ?s3 ?t3) (tsp_id (params req)) = Some ?t3" by simp
    moreover have "artifacts_of ?t3 = previous_artifacts s (tsp_id (params req))"
      using t2(2) prev by (simp add: artifacts_of_def)
    ultimately show ?thesis by blast
  qed
qed

text \<open>
  C1.  When \<open>on_send_task\<close> returns a response that carries a task, the query was
  extracted, the agent returned a string for it, and the task stored under the
  request's task id is the returned one: its state is \<open>INPUT_REQUIRED\<close> when the
  agent's string contains \<open>MISSING_INFO:\<close> and \<open>COMPLETED\<close> when it does not; its status
  message is the agent message with the one text part holding that string; and its
  artifacts are the ones the task had before the call followed by exactly one new
  artifact with the same one text part.
\<close>

theorem on_send_task_success:
  assumes "on_send_task e s req = (s', Inr r)" and "resp_body r = Inr t"
  shows "\<exists>query result.
           get_user_query (params req) = Inr query
         \<and> agent_invoke e query (sessionId (params req)) = Inr result
         \<and> tasks s' (tsp_id (params req)) = Some t
         \<and> state (status t) = (if contains ''MISSING_INFO:'' result then INPUT_REQUIRED else COMPLETED)
         \<and> status_message (status t) = Some \<lparr>msg_role = Agent, msg_parts = [TextPart result]\<rparr>
         \<and> artifacts_of t = previous_artifacts s (tsp_id (params req))
               @ [\<lparr>art_parts = [TextPart result], art_index = None, art_append = None\<rparr>]"
proof -
  obtain s1 t1 where inv: "invoke e s1 req = (s', Inr r)"
    and t1: "tasks s1 (tsp_id (params req)) = Some t1"
            "artifacts_of t1 = previous_artifacts s (tsp_id (params req))"
    using on_send_task_Inr [OF assms] by blast
  from invoke_Inr [OF inv] obtain query result t0 t' where
      "get_user_query (params req) = Inr query"
      "agent_invoke e query (sessionId (params req)) = Inr result"
      "tasks s1 (tsp_id (params req)) = Some t0"
      "r = \<lparr>resp_id = req_id req, resp_body = Inr t'\<rparr>"
      "tasks s' (tsp_id (params req)) = Some t'"
      "status t' = \<lparr>state = (if contains ''MISSING_INFO:'' result then INPUT_REQUIRED else COMPLETED),
                        status_message = Some \<lparr>msg_role = Agent, msg_parts = [TextPart result]\<rparr>\<rparr>"
      "artifacts_of t' = artifacts_of t0 @ [\<lparr>art_parts = [TextPart result], art_index = None, art_append = None\<rparr>]"
    by blast
  moreover from this assms(2) have "t' = t" by simp
  moreover from calculation t1 have "t0 = t1" by simp
  ultimately show ?thesis using t1(2) by (intro exI [of _ query] exI [of _ result]) simp
qed

theorem on_send_task_success_witness:
  "on_send_task (example_env True (Inr ''MISSING_INFO: due date'') []) example_manager
       (example_request [TextPart ''add a task''] [''text''] None)
     = (example_manager
          \<lparr>tasks := [''t1'' \<mapsto> example_task
                       \<lparr>status := answer_status INPUT_REQUIRED ''MISSING_INFO: due date'',
                        artifacts := Some [old_artifact, answer_artifact ''MISSING_INFO: due date'']\<rparr>],
           sent := [(''http://good'',
                     example_task\<lparr>status := \<lparr>state = WORKING, status_message = None\<rparr>\<rparr>)],
           agent_calls := [(''add a task'', ''s1'')]\<rparr>,
        Inr \<lparr>resp_id = ''r1'',
             resp_body = Inr (example_task
                       \<lparr>status := answer_status INPUT_REQUIRED ''MISSING_INFO: due date'',
                        artifacts := Some [old_artifact, answer_artifact ''MISSING_INFO: due date'']\<rparr>)\<rparr>)
   \<and> (\<exists>query result.
         get_user_query (params (example_request [TextPart ''add a task''] [''text''] None)) = Inr query
       \<and> agent_invoke (example_env True (Inr ''MISSING_INFO: due date'') []) query
            (sessionId (params (example_request [TextPart ''add a task''] [''text''] None))) = Inr result
       \<and> state (answer_status INPUT_REQUIRED ''MISSING_INFO: due date'')
            = (if contains ''MISSING_INFO:'' result then INPUT_REQUIRED else COMPLETED)
       \<and> [old_artifact, answer_artifact ''MISSING_INFO: due date'']
            = previous_artifacts example_manager ''t1'' @ [answer_artifact result])"
proof -
  let ?t = "example_task
              \<lparr>status := answer_status INPUT_REQUIRED ''MISSING_INFO: due date'',
               artifacts := Some [old_artifact, answer_artifact ''MISSING_INFO: due date'']\<rparr>"
  let ?r = "\<lparr>resp_id = ''r1'', resp_body = Inr ?t\<rparr>"
  let ?s' = "example_manager
          \<lparr>tasks := [''t1'' \<mapsto> ?t],
           sent := [(''http://good'',
                     example_task\<lparr>status := \<lparr>state = WORKING, status_message = None\<rparr>\<rparr>)],
           agent_calls := [(''add a task'', ''s1'')]\<rparr>"
  have run: "on_send_task (example_env True (Inr ''MISSING_INFO: due date'') []) example_manager
       (example_request [TextPart ''add a task''] [''text''] None) = (?s', Inr ?r)"
    by (simp add: on_send_task_def validate_request_def are_modalities_compatible_def
        SUPPORTED_CONTENT_TYPES_def example_request_def example_env_def example_manager_def
        upsert_task_def update_store_def Let_def send_task_notification_def
        has_push_notification_info_def get_push_notification_info_def invoke_def
        get_user_query_def example_task_def answer_status_def answer_artifact_def)
  have body: "resp_body ?r = Inr ?t" by simp
  from on_send_task_success [OF run body] run show ?thesis
    by (simp add: artifacts_of_def answer_artifact_def answer_status_def example_request_def)
qed

lemma validate_request_incompatible:
  assumes "set (acceptedOutputModes (params req)) \<inter> set SUPPORTED_CONTENT_TYPES = {}"
  shows "validate_request req = Some (new_incompatible_types_error (req_id req))"
proof -
  have "\<not> are_modalities_compatible (acceptedOutputModes (params req)) SUPPORTED_CONTENT_TYPES"
    using assms by (auto simp: are_modalities_compatible_def list_ex_iff)
  then show ?thesis by (simp add: validate_request_def)
qed

text \<open>
  C2.  When no accepted output mode of the request is among the agent's supported
  content types, \<open>on_send_task\<close> returns the response that carries the
  incompatible-types error for the request id, and the manager's state after the call
  is the state before it: no task is upserted, none is changed, nothing is registered
  or sent.
\<close>

theorem on_send_task_incompatible_modes:
  assumes "set (acceptedOutputModes (params req)) \<inter> set SUPPORTED_CONTENT_TYPES = {}"
  shows "on_send_task e s req =
           (s, Inr \<lparr>resp_id = req_id req, resp_body = Inl ContentTypeNotSupportedError\<rparr>)"
  by (simp add: on_send_task_def validate_request_incompatible [OF assms]
        new_incompatible_types_error_def)

theorem on_send_task_incompatible_modes_witness:
  "set (acceptedOutputModes (params (example_request [TextPart ''hi''] [''image/png'', ''video/mp4''] None)))
      \<inter> set SUPPORTED_CONTENT_TYPES = {}
   \<and> on_send_task (example_env True (Inr ''ok'') []) example_manager
        (example_request [TextPart ''hi''] [''image/png'', ''video/mp4''] None)
     = (example_manager, Inr \<lparr>resp_id = ''r1'', resp_body = Inl ContentTypeNotSupportedError\<rparr>)"
proof -
  have disjoint: "set (acceptedOutputModes (params (example_request [TextPart ''hi''] [''image/png'', ''video/mp4''] None)))
      \<inter> set SUPPORTED_CONTENT_TYPES = {}"
    by (simp add: example_request_def SUPPORTED_CONTENT_TYPES_def)
  from on_send_task_incompatible_modes [OF disjoint, of "example_env True (Inr ''ok'') []" example_manager]
  show ?thesis using disjoint by (simp add: example_request_def)
qed

text \<open>
  C6.  When the verification challenge for the config's URL fails,
  \<open>set_push_notification_info\<close> returns \<open>False\<close> and leaves the manager's state as it was:
  the config is not registered, and the query for the task id answers what it answered
  before, so a config registered earlier is still there.
\<close>

theorem set_push_notification_info_unverified:
  assumes "\<not> verify_push_notification_url e (url cfg)"
  shows "set_push_notification_info e s tid cfg = (s, False)
       \<and> get_push_notification_info (fst (set_push_notification_info e s tid cfg)) tid
           = get_push_notification_info s tid"
  using assms by (simp add: set_push_notification_info_def)

theorem set_push_notification_info_unverified_witness:
  "\<not> verify_push_notification_url (example_env False (Inr ''ok'') []) (url \<lparr>url = ''http://bad''\<rparr>)
   \<and> set_push_notification_info (example_env False (Inr ''ok'') []) example_manager ''t1''
        \<lparr>url = ''http://bad''\<rparr> = (example_manager, False)
   \<and> get_push_notification_info
        (fst (set_push_notification_info (example_env False (Inr ''ok'') []) example_manager ''t1''
               \<lparr>url = ''http://bad''\<rparr>)) ''t1''
       = Some \<lparr>url = ''http://good''\<rparr>"
proof -
  have rejected: "\<not> verify_push_notification_url (example_env False (Inr ''ok'') [])
                       (url \<lparr>url = ''http://bad''\<rparr>)"
    by (simp add: example_env_def)
  from set_push_notification_info_unverified [OF rejected, of example_manager "''t1''"]
  show ?thesis using rejected
    by (simp add: get_push_notification_info_def example_manager_def)
qed

text \<open>
  C10.  When the query can be extracted and the agent's stream yields no item, the
  generator yields exactly one response, the internal-error response for the request
  id, and raises nothing; the tasks and the notifications sent are what they were
  (only the call of the agent is recorded).  The error comes from the code after the
  loop, which reads a variable the loop never bound.
\<close>

theorem stream_generator_no_items:
  assumes "get_user_query (params req) = Inr query"
    and "fst (agent_stream e query (sessionId (params req))) = []"
  shows "stream_generator e s req =
           (s\<lparr>agent_calls := agent_calls s @ [(query, sessionId (params req))]\<rparr>,
            [StreamError \<lparr>jr_id = req_id req,
                          jr_error = InternalError ''An error occurred while streaming the response''\<rparr>],
            None)
       \<and> tasks (fst (stream_generator e s req)) = tasks s
       \<and> sent (fst (stream_generator e s req)) = sent s
       \<and> after_loop (s\<lparr>agent_calls := agent_calls s @ [(query, sessionId (params req))]\<rparr>)
             req None = Inl UnboundLocalError"
proof -
  obtain raised where "agent_stream e query (sessionId (params req)) = ([], raised)"
    using assms(2) by (cases "agent_stream e query (sessionId (params req))") simp
  then have "stream_generator e s req =
           (s\<lparr>agent_calls := agent_calls s @ [(query, sessionId (params req))]\<rparr>,
            [streaming_error (req_id req)], None)"
    using assms(1)
    by (cases raised) (simp_all add: stream_generator_def Let_def after_loop_def)
  then show ?thesis by (simp add: streaming_error_def after_loop_def)
qed

theorem stream_generator_no_items_witness:
  "get_user_query (params (example_request [TextPart ''hi''] [''text''] None)) = Inr ''hi''
   \<and> fst (agent_stream (example_env True (Inr ''ok'') []) ''hi''
            (sessionId (params (example_request [TextPart ''hi''] [''text''] None)))) = []
   \<and> stream_generator (example_env True (Inr ''ok'') []) example_manager
        (example_request [TextPart ''hi''] [''text''] None)
      = (example_manager\<lparr>agent_calls := [(''hi'', ''s1'')]\<rparr>,
         [StreamError \<lparr>jr_id = ''r1'',
                       jr_error = InternalError ''An error occurred while streaming the response''\<rparr>],
         None)"
proof -
  have q: "get_user_query (params (example_request [TextPart ''hi''] [''text''] None)) = Inr ''hi''"
    by (simp add: get_user_query_def example_request_def)
  have none: "fst (agent_stream (example_env True (Inr ''ok'') []) ''hi''
            (sessionId (params (example_request [TextPart ''hi''] [''text''] None)))) = []"
    by (simp add: example_env_def)
  from stream_generator_no_items [OF q none, of example_manager]
  show ?thesis using q none by (simp add: example_request_def example_manager_def)
qed

lemma py_in_dict:
  "py_in k (PDict d) = Inr (map_of d k \<noteq> None)"
  by (simp add: map_of_eq_None_iff)

text \<open>
  C3 (amended).  The loop body on an item with \<open>is_task_complete = True\<close>.  If the
  content is a mapping whose \<open>response\<close> value is a mapping with a \<open>result\<close> key that holds
  a string which \<open>json.loads\<close> decodes, the state is \<open>INPUT_REQUIRED\<close> and the one part is a
  data part holding the decoded value.  If the content is a mapping without a
  \<open>response\<close> key, or one whose \<open>response\<close> value is a mapping, string or list that does
  not contain \<open>result\<close>, the state is \<open>COMPLETED\<close> and the one part is a data part holding
  the mapping itself.  If the content is a string, the state is \<open>COMPLETED\<close> and the one
  part is a text part holding it.  In each case exactly one artifact with index 0 and
  \<open>append = False\<close> is built from that part.
\<close>

theorem stream_item_final:
  "(map_of d ''response'' = Some (PDict r) \<and> map_of r ''result'' = Some (PStr js) \<and> jl js = Some v
      \<longrightarrow> stream_item jl (Final (Mapping d)) =
            Inr \<lparr>lv_is_task_complete = True,
                 lv_artifacts = Some [\<lparr>art_parts = [DataPart v], art_index = Some 0,
                                       art_append = Some False\<rparr>],
                 lv_task_state = INPUT_REQUIRED,
                 lv_parts = [DataPart v]\<rparr>)
   \<and> (map_of d ''response'' = None
        \<or> (\<exists>x. map_of d ''response'' = Some x \<and> py_in ''result'' x = Inr False)
      \<longrightarrow> stream_item jl (Final (Mapping d)) =
            Inr \<lparr>lv_is_task_complete = True,
                 lv_artifacts = Some [\<lparr>art_parts = [DataPart (PDict d)], art_index = Some 0,
                                       art_append = Some False\<rparr>],
                 lv_task_state = COMPLETED,
                 lv_parts = [DataPart (PDict d)]\<rparr>)
   \<and> stream_item jl (Final (Text t)) =
         Inr \<lparr>lv_is_task_complete = True,
              lv_artifacts = Some [\<lparr>art_parts = [TextPart t], art_index = Some 0,
                                    art_append = Some False\<rparr>],
              lv_task_state = COMPLETED,
              lv_parts = [TextPart t]\<rparr>"
proof (intro conjI impI)
  assume "map_of d ''response'' = Some (PDict r) \<and> map_of r ''result'' = Some (PStr js) \<and> jl js = Some v"
  then have "has_response_result d = Inr True" "response_result_data jl d = Inr v"
    by (simp_all add: has_response_result_def response_result_data_def py_in_dict
          del: py_in.simps(1))
  then show "stream_item jl (Final (Mapping d)) =
            Inr \<lparr>lv_is_task_complete = True,
                 lv_artifacts = Some [\<lparr>art_parts = [DataPart v], art_index = Some 0,
                                       art_append = Some False\<rparr>],
                 lv_task_state = INPUT_REQUIRED,
                 lv_parts = [DataPart v]\<rparr>"
    by (simp add: stream_item_def final_vars_def)
next
  assume "map_of d ''response'' = None
        \<or> (\<exists>x. map_of d ''response'' = Some x \<and> py_in ''result'' x = Inr False)"
  then have "has_response_result d = Inr False"
    by (auto simp add: has_response_result_def py_in_dict simp del: py_in.simps(1))
  then show "stream_item jl (Final (Mapping d)) =
            Inr \<lparr>lv_is_task_complete = True,
                 lv_artifacts = Some [\<lparr>art_parts = [DataPart (PDict d)], art_index = Some 0,
                                       art_append = Some False\<rparr>],
                 lv_task_state = COMPLETED,
                 lv_parts = [DataPart (PDict d)]\<rparr>"
    by (simp add: stream_item_def final_vars_def)
next
  show "stream_item jl (Final (Text t)) =
         Inr \<lparr>lv_is_task_complete = True,
              lv_artifacts = Some [\<lparr>art_parts = [TextPart t], art_index = Some 0,
                                    art_append = Some False\<rparr>],
              lv_task_state = COMPLETED,
              lv_parts = [TextPart t]\<rparr>"
    by (simp add: stream_item_def final_vars_def)
qed

text \<open>
  Two mappings outside these cases: with \<open>response\<close> set to \<^verbatim>\<open>None\<close> the test
  \<^verbatim>\<open>"result" in None\<close> raises \<^verbatim>\<open>TypeError\<close>, and with a \<open>result\<close> that is not JSON
  (\<^verbatim>\<open>json.loads("ok")\<close>) the decoder raises; neither yields a status or an artifact.
\<close>

theorem stream_item_final_counterexample:
  "stream_item (json_loads (example_env True (Inr ''ok'') []))
      (Final (Mapping [(''name'', PStr ''add_activity''), (''response'', PNone)])) = Inl TypeError
   \<and> stream_item (json_loads (example_env True (Inr ''ok'') []))
      (Final (Mapping [(''response'', PDict [(''result'', PStr ''ok'')])])) = Inl JSONDecodeError"
  by (simp add: stream_item_def has_response_result_def response_result_data_def example_env_def)


theorem stream_item_final_witness:
  "stream_item (json_loads (example_env True (Inr ''ok'') []))
      (Final (Mapping [(''response'', PDict [(''result'', PStr ''[1, 2]'')])]))
     = Inr \<lparr>lv_is_task_complete = True,
            lv_artifacts = Some [\<lparr>art_parts = [DataPart (PList [PInt 1, PInt 2])],
                                  art_index = Some 0, art_append = Some False\<rparr>],
            lv_task_state = INPUT_REQUIRED,
            lv_parts = [DataPart (PList [PInt 1, PInt 2])]\<rparr>
   \<and> stream_item (json_loads (example_env True (Inr ''ok'') []))
      (Final (Mapping [(''response'', PDict [(''status'', PStr ''Activity added successfully.'')])]))
     = Inr \<lparr>lv_is_task_complete = True,
            lv_artifacts = Some [\<lparr>art_parts = [DataPart (PDict [(''response'',
                                      PDict [(''status'', PStr ''Activity added successfully.'')])])],
                                  art_index = Some 0, art_append = Some False\<rparr>],
            lv_task_state = COMPLETED,
            lv_parts = [DataPart (PDict [(''response'',
                          PDict [(''status'', PStr ''Activity added successfully.'')])])]\<rparr>
   \<and> stream_item (json_loads (example_env True (Inr ''ok'') [])) (Final (Text ''done''))
     = Inr \<lparr>lv_is_task_complete = True,
            lv_artifacts = Some [\<lparr>art_parts = [TextPart ''done''], art_index = Some 0,
                                  art_append = Some False\<rparr>],
            lv_task_state = COMPLETED,
            lv_parts = [TextPart ''done'']\<rparr>"
  using stream_item_final
          [of "[(''response'', PDict [(''result'', PStr ''[1, 2]'')])]"
              "[(''result'', PStr ''[1, 2]'')]" "''[1, 2]''"
              "json_loads (example_env True (Inr ''ok'') [])" "PList [PInt 1, PInt 2]" "''done''"]
        stream_item_final
          [of "[(''response'', PDict [(''status'', PStr ''Activity added successfully.'')])]"
              "[]" "[]" "json_loads (example_env True (Inr ''ok'') [])" PNone "''done''"]
  by (simp add: example_env_def)

lemma stream_generator_single:
  assumes "get_user_query (params req) = Inr query"
    and "agent_stream e query (sessionId (params req)) = ([item], None)"
    and "stream_item (json_loads e) item = Inr v"
    and "tasks s (tsp_id (params req)) = Some t"
  shows "stream_generator e s req =
           (case after_loop (s\<lparr>agent_calls := agent_calls s @ [(query, sessionId (params req))]\<rparr>)
                   req (Some v) of
              Inl err \<Rightarrow> (s\<lparr>agent_calls := agent_calls s @ [(query, sessionId (params req))]\<rparr>,
                           [streaming_error (req_id req)], None)
            | Inr (s2, out) \<Rightarrow> (s2, out, None))"
  using assms by (simp add: stream_generator_def Let_def)

text \<open>
  C4 (amended).  For a request whose first part is text and whose task is in the
  store, and an agent stream that yields exactly the one item
  \<^verbatim>\<open>{"is_task_complete": True, "content": "done"}\<close>, the generator yields, in this order
  and nothing else: a non-final status event with state \<open>COMPLETED\<close> and the agent
  message with the text part \<open>done\<close>; an artifact-update event whose artifact has the one
  text part \<open>done\<close>, index 0 and \<open>append = False\<close>; a final status event with state
  \<open>COMPLETED\<close> and no message.  It raises nothing.
\<close>

theorem stream_generator_single_done:
  assumes "get_user_query (params req) = Inr query"
    and "agent_stream e query (sessionId (params req)) = ([Final (Text ''done'')], None)"
    and "tasks s (tsp_id (params req)) = Some t"
  shows "fst (snd (stream_generator e s req)) =
           [StatusUpdate (req_id req)
              \<lparr>sue_id = tsp_id (params req),
               sue_status = \<lparr>state = COMPLETED,
                             status_message = Some \<lparr>msg_role = Agent, msg_parts = [TextPart ''done'']\<rparr>\<rparr>,
               final = False\<rparr>,
            ArtifactUpdate (req_id req)
              \<lparr>aue_id = tsp_id (params req),
               aue_artifact = \<lparr>art_parts = [TextPart ''done''], art_index = Some 0,
                               art_append = Some False\<rparr>\<rparr>,
            StatusUpdate (req_id req)
              \<lparr>sue_id = tsp_id (params req),
               sue_status = \<lparr>state = COMPLETED, status_message = None\<rparr>,
               final = True\<rparr>]
       \<and> snd (snd (stream_generator e s req)) = None"
proof -
  have item: "stream_item (json_loads e) (Final (Text ''done'')) = Inr (final_vars COMPLETED [TextPart ''done''])"
    by (simp add: stream_item_def)
  let ?s1 = "s\<lparr>agent_calls := agent_calls s @ [(query, sessionId (params req))]\<rparr>"
  have "tasks ?s1 (tsp_id (params req)) = Some t" using assms(3) by simp
  note upd = update_store_found [OF this]
  show ?thesis
    by (simp add: stream_generator_single [OF assms(1) assms(2) item assms(3)]
          after_loop_def upd final_vars_def Let_def)
qed


theorem stream_generator_single_done_witness:
  "get_user_query (params (example_request [TextPart ''hi''] [''text''] None)) = Inr ''hi''
   \<and> agent_stream (example_env True (Inr ''ok'') [Final (Text ''done'')]) ''hi''
        (sessionId (params (example_request [TextPart ''hi''] [''text''] None)))
       = ([Final (Text ''done'')], None)
   \<and> tasks example_manager (tsp_id (params (example_request [TextPart ''hi''] [''text''] None)))
       = Some example_task
   \<and> fst (snd (stream_generator (example_env True (Inr ''ok'') [Final (Text ''done'')])
                  example_manager (example_request [TextPart ''hi''] [''text''] None))) =
         [StatusUpdate ''r1''
            \<lparr>sue_id = ''t1'', sue_status = answer_status COMPLETED ''done'', final = False\<rparr>,
          ArtifactUpdate ''r1''
            \<lparr>aue_id = ''t1'',
             aue_artifact = \<lparr>art_parts = [TextPart ''done''], art_index = Some 0,
                             art_append = Some False\<rparr>\<rparr>,
          StatusUpdate ''r1''
            \<lparr>sue_id = ''t1'', sue_status = \<lparr>state = COMPLETED, status_message = None\<rparr>,
             final = True\<rparr>]"
proof -
  have q: "get_user_query (params (example_request [TextPart ''hi''] [''text''] None)) = Inr ''hi''"
    by (simp add: get_user_query_def example_request_def)
  have one: "agent_stream (example_env True (Inr ''ok'') [Final (Text ''done'')]) ''hi''
        (sessionId (params (example_request [TextPart ''hi''] [''text''] None)))
       = ([Final (Text ''done'')], None)"
    by (simp add: example_env_def)
  have found: "tasks example_manager (tsp_id (params (example_request [TextPart ''hi''] [''text''] None)))
       = Some example_task"
    by (simp add: example_manager_def example_request_def)
  from stream_generator_single_done [OF q one found]
  show ?thesis using q one found by (simp add: example_request_def answer_status_def)
qed

text \<open>
  The first status event carries the state of the last item, here \<open>COMPLETED\<close>, not
  \<open>WORKING\<close>.
\<close>

theorem stream_generator_single_done_counterexample:
  "stream_generator (example_env True (Inr ''ok'') [Final (Text ''done'')])
      example_manager (example_request [TextPart ''hi''] [''text''] None) =
     (example_manager
        \<lparr>tasks := [''t1'' \<mapsto> example_task
                     \<lparr>status := answer_status COMPLETED ''done'',
                      artifacts := Some [old_artifact,
                                         \<lparr>art_parts = [TextPart ''done''], art_index = Some 0,
                                          art_append = Some False\<rparr>]\<rparr>],
         sent := [(''http://good'',
                   example_task
                     \<lparr>status := answer_status COMPLETED ''done'',
                      artifacts := Some [old_artifact,
                                         \<lparr>art_parts = [TextPart ''done''], art_index = Some 0,
                                          art_append = Some False\<rparr>]\<rparr>)],
         agent_calls := [(''hi'', ''s1'')]\<rparr>,
      [StatusUpdate ''r1''
         \<lparr>sue_id = ''t1'', sue_status = answer_status COMPLETED ''done'', final = False\<rparr>,
       ArtifactUpdate ''r1''
         \<lparr>aue_id = ''t1'',
          aue_artifact = \<lparr>art_parts = [TextPart ''done''], art_index = Some 0,
                          art_append = Some False\<rparr>\<rparr>,
       StatusUpdate ''r1''
         \<lparr>sue_id = ''t1'', sue_status = \<lparr>state = COMPLETED, status_message = None\<rparr>,
          final = True\<rparr>],
      None)
   \<and> hd (fst (snd (stream_generator (example_env True (Inr ''ok'') [Final (Text ''done'')])
                      example_manager (example_request [TextPart ''hi''] [''text''] None))))
       \<noteq> StatusUpdate ''r1''
           \<lparr>sue_id = ''t1'', sue_status = answer_status WORKING ''done'', final = False\<rparr>"
  by (simp add: stream_generator_def get_user_query_def example_request_def example_env_def
        example_manager_def Let_def stream_item_def final_vars_def after_loop_def update_store_def
        send_task_notification_def has_push_notification_info_def get_push_notification_info_def
        example_task_def answer_status_def)

lemma on_send_task_unverified_push:
  assumes "validate_request req = None"
    and "pushNotification (params req) = Some cfg"
    and "\<not> verify_push_notification_url e (url cfg)"
  shows "on_send_task e s req =
           (s, Inr \<lparr>resp_id = req_id req,
                    resp_body = Inl (InvalidParamsError ''Push notification URL is invalid'')\<rparr>)"
  using assms by (simp add: on_send_task_def set_push_notification_info_def)

lemma on_send_task_subscribe_unverified_push:
  assumes "validate_request req = None"
    and "pushNotification (params req) = Some cfg"
    and "\<not> verify_push_notification_url e (url cfg)"
  shows "on_send_task_subscribe e s req =
           (upsert_task s (params req),
            Inl \<lparr>jr_id = req_id req,
                 jr_error = InvalidParamsError ''Push notification URL is invalid''\<rparr>)"
  using assms by (simp add: on_send_task_subscribe_def set_push_notification_info_def)

text \<open>
  C5.  On an empty store, a streaming request for task \<open>t1\<close> whose push-notification
  URL fails verification is answered with the invalid-params error, and the store then
  holds task \<open>t1\<close>: \<open>on_send_task_subscribe\<close> upserts before it verifies.  The same request
  through \<open>on_send_task\<close> gets the same error and leaves the store empty.
\<close>

theorem on_send_task_subscribe_unverified_push_creates_task:
  "on_send_task_subscribe (example_env False (Inr ''ok'') []) empty_manager
       (example_request [TextPart ''hi''] [''text''] (Some \<lparr>url = ''http://bad''\<rparr>))
     = (empty_manager
          \<lparr>tasks := [''t1'' \<mapsto> \<lparr>task_id = ''t1'', task_session = ''s1'',
                                  status = \<lparr>state = SUBMITTED, status_message = None\<rparr>,
                                  artifacts = None\<rparr>]\<rparr>,
        Inl \<lparr>jr_id = ''r1'', jr_error = InvalidParamsError ''Push notification URL is invalid''\<rparr>)
   \<and> on_send_task (example_env False (Inr ''ok'') []) empty_manager
       (example_request [TextPart ''hi''] [''text''] (Some \<lparr>url = ''http://bad''\<rparr>))
     = (empty_manager,
        Inr \<lparr>resp_id = ''r1'',
             resp_body = Inl (InvalidParamsError ''Push notification URL is invalid'')\<rparr>)"
  by (simp add: on_send_task_subscribe_def on_send_task_def validate_request_def
        are_modalities_compatible_def SUPPORTED_CONTENT_TYPES_def example_request_def
        example_env_def empty_manager_def upsert_task_def set_push_notification_info_def)


lemma invoke_non_text:
  assumes "get_user_query (params req) = Inl err"
  shows "invoke e s req = (s, Inl err)"
  using assms by (simp add: invoke_def)

lemma on_send_task_reaches_invoke:
  assumes "validate_request req = None"
    and "(case pushNotification (params req) of
            None \<Rightarrow> True
          | Some cfg \<Rightarrow> verify_push_notification_url e (url cfg))"
  shows "\<exists>s3 t. on_send_task e s req = invoke e s3 req
             \<and> tasks s3 (tsp_id (params req)) = Some t
             \<and> status t = \<lparr>state = WORKING, status_message = None\<rparr>
             \<and> agent_calls s3 = agent_calls s"
proof -
  obtain s1 where so:
      "(case pushNotification (params req) of
          None \<Rightarrow> (s, True)
        | Some cfg \<Rightarrow> set_push_notification_info e s (tsp_id (params req)) cfg) = (s1, True)"
    using assms(2) by (cases "pushNotification (params req)") (simp_all add: set_push_notification_info_def)
  have calls_s1: "agent_calls s1 = agent_calls s"
  proof (cases "pushNotification (params req)")
    case None
    with so show ?thesis by simp
  next
    case (Some cfg)
    with so have "s1 = fst (set_push_notification_info e s (tsp_id (params req)) cfg)" by simp
    then show ?thesis by simp
  qed
  obtain t2 where t2: "tasks (upsert_task s1 (params req)) (tsp_id (params req)) = Some t2"
    using upsert_task_present by blast
  let ?st = "\<lparr>state = WORKING, status_message = None\<rparr>"
  let ?t3 = "t2\<lparr>status := ?st, artifacts := Some (artifacts_of t2 @ [])\<rparr>"
  let ?s3 = "(upsert_task s1 (params req))\<lparr>tasks := (tasks (upsert_task s1 (params req)))(tsp_id (params req) \<mapsto> ?t3)\<rparr>"
  have upd: "update_store (upsert_task s1 (params req)) (tsp_id (params req)) ?st (Some []) = Inr (?s3, ?t3)"
    using update_store_found [OF t2, of ?st "Some []"] by simp
  have "on_send_task e s req = invoke e (send_task_notification ?s3 ?t3) req"
    using assms(1) upd by (simp add: on_send_task_def so Let_def)
  moreover have "tasks (send_task_notification ?s3 ?t3) (tsp_id (params req)) = Some ?t3" by simp
  moreover have "status ?t3 = ?st" by simp
  moreover have "agent_calls (send_task_notification ?s3 ?t3) = agent_calls s"
    using calls_s1 by simp
  ultimately show ?thesis by blast
qed

lemma on_send_task_rejected:
  assumes "\<not> (validate_request req = None
             \<and> (case pushNotification (params req) of
                   None \<Rightarrow> True
                 | Some cfg \<Rightarrow> verify_push_notification_url e (url cfg)))"
  shows "fst (on_send_task e s req) = s"
  using assms
  by (cases "validate_request req"; cases "pushNotification (params req)")
     (simp_all add: on_send_task_def set_push_notification_info_def)

text \<open>
  C7 (amended).  When the first part of the inbound message is not a text part,
  \<open>_get_user_query\<close> raises \<^verbatim>\<open>ValueError("Only text parts are supported")\<close>.  The streaming
  generator raises it at once: nothing is yielded, the agent is not called and the
  state is untouched.  \<open>on_send_task\<close> never calls the agent either; when validation and
  the push-notification check pass, it raises that error after the upsert and after
  the status of the task has been set to \<open>WORKING\<close>.
\<close>

theorem non_text_first_part:
  assumes "msg_parts (tsp_message (params req)) = DataPart d # rest"
  shows "get_user_query (params req) = Inl (ValueError ''Only text parts are supported'')
       \<and> stream_generator e s req = (s, [], Some (ValueError ''Only text parts are supported''))
       \<and> agent_calls (fst (on_send_task e s req)) = agent_calls s
       \<and> (validate_request req = None
            \<and> (case pushNotification (params req) of
                  None \<Rightarrow> True
                | Some cfg \<Rightarrow> verify_push_notification_url e (url cfg))
          \<longrightarrow> snd (on_send_task e s req) = Inl (ValueError ''Only text parts are supported'')
              \<and> (\<exists>t. tasks (fst (on_send_task e s req)) (tsp_id (params req)) = Some t
                     \<and> status t = \<lparr>state = WORKING, status_message = None\<rparr>))"
proof -
  have q: "get_user_query (params req) = Inl (ValueError ''Only text parts are supported'')"
    using assms by (simp add: get_user_query_def)
  have gen: "stream_generator e s req = (s, [], Some (ValueError ''Only text parts are supported''))"
    using q by (simp add: stream_generator_def)
  have reached: "snd (on_send_task e s req) = Inl (ValueError ''Only text parts are supported'')
              \<and> (\<exists>t. tasks (fst (on_send_task e s req)) (tsp_id (params req)) = Some t
                     \<and> status t = \<lparr>state = WORKING, status_message = None\<rparr>)
              \<and> agent_calls (fst (on_send_task e s req)) = agent_calls s"
    if ok: "validate_request req = None
            \<and> (case pushNotification (params req) of
                  None \<Rightarrow> True
                | Some cfg \<Rightarrow> verify_push_notification_url e (url cfg))"
  proof -
    obtain s3 t where "on_send_task e s req = invoke e s3 req"
        "tasks s3 (tsp_id (params req)) = Some t"
        "status t = \<lparr>state = WORKING, status_message = None\<rparr>"
        "agent_calls s3 = agent_calls s"
      using on_send_task_reaches_invoke [OF conjunct1 [OF ok] conjunct2 [OF ok], of s] by blast
    then show ?thesis by (simp add: invoke_non_text [OF q])
  qed
  have calls: "agent_calls (fst (on_send_task e s req)) = agent_calls s"
  proof (cases "validate_request req = None
            \<and> (case pushNotification (params req) of
                  None \<Rightarrow> True
                | Some cfg \<Rightarrow> verify_push_notification_url e (url cfg))")
    case True
    then show ?thesis using reached by blast
  next
    case False
    then show ?thesis by (simp add: on_send_task_rejected)
  qed
  show ?thesis using q gen calls reached by blast
qed

theorem non_text_first_part_witness:
  "msg_parts (tsp_message (params (example_request [DataPart (PInt 1), TextPart ''hi''] [''text''] None)))
     = DataPart (PInt 1) # [TextPart ''hi'']
   \<and> validate_request (example_request [DataPart (PInt 1), TextPart ''hi''] [''text''] None) = None
   \<and> get_user_query (params (example_request [DataPart (PInt 1), TextPart ''hi''] [''text''] None))
       = Inl (ValueError ''Only text parts are supported'')
   \<and> stream_generator (example_env True (Inr ''ok'') [Final (Text ''done'')]) example_manager
        (example_request [DataPart (PInt 1), TextPart ''hi''] [''text''] None)
       = (example_manager, [], Some (ValueError ''Only text parts are supported''))
   \<and> agent_calls (fst (on_send_task (example_env True (Inr ''ok'') [Final (Text ''done'')])
                          example_manager
                          (example_request [DataPart (PInt 1), TextPart ''hi''] [''text''] None))) = []
   \<and> snd (on_send_task (example_env True (Inr ''ok'') [Final (Text ''done'')]) example_manager
             (example_request [DataPart (PInt 1), TextPart ''hi''] [''text''] None))
       = Inl (ValueError ''Only text parts are supported'')"
proof -
  have first: "msg_parts (tsp_message (params (example_request [DataPart (PInt 1), TextPart ''hi''] [''text''] None)))
     = DataPart (PInt 1) # [TextPart ''hi'']"
    by (simp add: example_request_def)
  have valid: "validate_request (example_request [DataPart (PInt 1), TextPart ''hi''] [''text''] None) = None"
    by (simp add: validate_request_def example_request_def are_modalities_compatible_def
          SUPPORTED_CONTENT_TYPES_def)
  from non_text_first_part [OF first, of "example_env True (Inr ''ok'') [Final (Text ''done'')]" example_manager]
  show ?thesis using first valid
    by (simp add: example_request_def example_manager_def)
qed

text \<open>
  In \<open>on_send_task\<close> the status update to \<open>WORKING\<close> (and its notification) comes before
  the error: the stored task had another status before the call.
\<close>

theorem non_text_first_part_counterexample:
  "on_send_task (example_env True (Inr ''ok'') []) example_manager
       (example_request [DataPart (PInt 1), TextPart ''hi''] [''text''] None)
     = (example_manager
          \<lparr>tasks := [''t1'' \<mapsto> example_task\<lparr>status := \<lparr>state = WORKING, status_message = None\<rparr>\<rparr>],
           sent := [(''http://good'',
                     example_task\<lparr>status := \<lparr>state = WORKING, status_message = None\<rparr>\<rparr>)]\<rparr>,
        Inl (ValueError ''Only text parts are supported''))
   \<and> tasks example_manager ''t1'' = Some example_task
   \<and> status example_task \<noteq> \<lparr>state = WORKING, status_message = None\<rparr>"
  by (simp add: on_send_task_def validate_request_def are_modalities_compatible_def
        SUPPORTED_CONTENT_TYPES_def example_request_def example_env_def example_manager_def
        upsert_task_def update_store_def Let_def send_task_notification_def
        has_push_notification_info_def get_push_notification_info_def invoke_def
        get_user_query_def example_task_def)


lemma contains_sublist: "contains sub s = sublist sub s"
  by (induction s) (simp_all add: sublist_Cons_right)

lemma py_lower_day_trigger:
  assumes "w \<in> set day_triggers"
  shows "py_lower w = w"
  using assms by (auto simp: day_triggers_def py_lower_def lower_char_def)

lemma contains_py_lower:
  assumes "w \<in> set day_triggers" and "contains w query"
  shows "contains w (py_lower query)"
proof -
  have "sublist (map lower_char w) (map lower_char query)"
    using assms(2) by (simp add: contains_sublist map_mono_sublist)
  then show ?thesis
    using py_lower_day_trigger [OF assms(1)] by (simp add: contains_sublist py_lower_def)
qed

text \<open>
  C9 (amended).  When the query contains one of the day-planning phrases (as written,
  or after lowering), the events fetched for today are the empty list, and the
  activity workbook opens (it loads when the file exists) and saves without an
  exception, \<open>invoke\<close> returns the mapping with \<open>is_task_complete = True\<close>,
  \<open>require_user_input = False\<close> and the content
  \<open>You have no events scheduled for today. Your day is wide open!\<close>; the file then holds
  the worksheet that was opened, with no row added.
\<close>

theorem calendar_invoke_no_events:
  assumes "w \<in> set day_triggers"
    and "contains w query \<or> contains w (py_lower query)"
    and "fetch_events ce
           (Some ((now ce)\<lparr>dt_hour := 0, dt_minute := 0, dt_second := 0, dt_microsecond := 0\<rparr>))
           (Some ((now ce)\<lparr>dt_hour := 23, dt_minute := 59, dt_second := 59,
                            dt_microsecond := 999999\<rparr>))
           50 = FetchEvents []"
    and "open_workbook ce file = Inr ws"
    and "save_workbook ce ws = None"
  shows "calendar_invoke ce file query session =
           (Some ws,
            \<lparr>is_task_complete = True, require_user_input = False,
             content = ''You have no events scheduled for today. Your day is wide open!''\<rparr>)"
proof -
  have "contains w (py_lower query)"
    using assms(1,2) contains_py_lower by blast
  then have trigger: "list_ex (\<lambda>word. contains word (py_lower query)) day_triggers"
    using assms(1) by (auto simp: list_ex_iff)
  have saved: "append_events_to_excel ce file [] = Inr (Some ws)"
    using assms(4,5) by (simp add: append_events_to_excel_def)
  show ?thesis
    using trigger assms(3) saved
    by (simp add: calendar_invoke_def Let_def plan_my_day_def)
qed

theorem calendar_invoke_no_events_witness:
  "''what's my schedule'' \<in> set day_triggers
   \<and> contains ''what's my schedule'' (py_lower ''So, What's MY schedule today?'')
   \<and> open_workbook (example_calendar_env (FetchEvents []) None) (Some example_worksheet)
       = Inr example_worksheet
   \<and> save_workbook (example_calendar_env (FetchEvents []) None) example_worksheet = None
   \<and> calendar_invoke (example_calendar_env (FetchEvents []) None) (Some example_worksheet)
        ''So, What's MY schedule today?'' ''s1''
     = (Some example_worksheet,
        \<lparr>is_task_complete = True, require_user_input = False,
         content = ''You have no events scheduled for today. Your day is wide open!''\<rparr>)"
proof -
  have trig: "''what's my schedule'' \<in> set day_triggers"
    by (simp add: day_triggers_def)
  have low: "contains ''what's my schedule'' (py_lower ''So, What's MY schedule today?'')"
    by (simp add: py_lower_def lower_char_def)
  have fetched: "fetch_events (example_calendar_env (FetchEvents []) None)
           (Some ((now (example_calendar_env (FetchEvents []) None))
                    \<lparr>dt_hour := 0, dt_minute := 0, dt_second := 0, dt_microsecond := 0\<rparr>))
           (Some ((now (example_calendar_env (FetchEvents []) None))
                    \<lparr>dt_hour := 23, dt_minute := 59, dt_second := 59, dt_microsecond := 999999\<rparr>))
           50 = FetchEvents []"
    by (simp add: example_calendar_env_def)
  have opened: "open_workbook (example_calendar_env (FetchEvents []) None) (Some example_worksheet)
       = Inr example_worksheet"
    by (simp add: open_workbook_def example_calendar_env_def)
  have saves: "save_workbook (example_calendar_env (FetchEvents []) None) example_worksheet = None"
    by (simp add: example_calendar_env_def)
  from calendar_invoke_no_events [OF trig disjI2 [OF low] fetched opened saves, of "''s1''"]
  show ?thesis using trig low opened saves by simp
qed

text \<open>
  With the same query and no event fetched, a \<^verbatim>\<open>wb.save\<close> that raises sends \<open>invoke\<close> to
  its \<^verbatim>\<open>except\<close> branch: the mapping returned has \<open>is_task_complete = False\<close>.
\<close>

theorem calendar_invoke_no_events_counterexample:
  "contains ''what's my schedule'' (py_lower ''what's my schedule'')
   \<and> fetch_events (example_calendar_env (FetchEvents []) (Some ''Permission denied''))
        (Some ((now (example_calendar_env (FetchEvents []) (Some ''Permission denied'')))
                 \<lparr>dt_hour := 0, dt_minute := 0, dt_second := 0, dt_microsecond := 0\<rparr>))
        (Some ((now (example_calendar_env (FetchEvents []) (Some ''Permission denied'')))
                 \<lparr>dt_hour := 23, dt_minute := 59, dt_second := 59, dt_microsecond := 999999\<rparr>))
        50 = FetchEvents []
   \<and> calendar_invoke (example_calendar_env (FetchEvents []) (Some ''Permission denied'')) None
        ''what's my schedule'' ''s1''
     = (None,
        \<lparr>is_task_complete = False, require_user_input = True,
         content = ''An error occurred: Permission denied''\<rparr>)"
  by (simp add: calendar_invoke_def day_triggers_def py_lower_def lower_char_def
        example_calendar_env_def Let_def append_events_to_excel_def open_workbook_def
        error_response_def)

end
